theory Spec2Isabelle
  imports Complex_Main "HOL-Library.Word" "HOL-Library.Sublist" "HOL-Library.AList"
begin

section \<open>JavaScript strings\<close>

text \<open>
  A JavaScript string is a sequence of UTF-16 code units; \<open>length\<close>, indexing, \<open>trim\<close>,
  \<open>split\<close> and the regular expressions without the \<open>u\<close> flag all work on code units.
  ASCII text is written with \<open>str\<close>; other characters are given by their code unit.
\<close>

type_synonym jschar = "16 word"
type_synonym jsstring = "jschar list"

definition str :: "string \<Rightarrow> jsstring" where
  "str s = map of_char s"

text \<open>White space and line terminators: the set that \<open>trim()\<close> strips and \<open>\s\<close> matches.\<close>

definition isWhiteSpace :: "jschar \<Rightarrow> bool" where
  "isWhiteSpace c \<longleftrightarrow>
     c \<in> {0x9, 0xA, 0xB, 0xC, 0xD, 0x20, 0xA0, 0x1680, 0x2028, 0x2029, 0x202F, 0x205F, 0x3000, 0xFEFF}
     \<or> (0x2000 \<le> c \<and> c \<le> 0x200A)"

definition trim :: "jsstring \<Rightarrow> jsstring" where
  "trim s = rev (dropWhile isWhiteSpace (rev (dropWhile isWhiteSpace s)))"

text \<open>\<open>Array.prototype.join\<close> on an array of strings.\<close>

fun join :: "jsstring \<Rightarrow> jsstring list \<Rightarrow> jsstring" where
  "join sep [] = []"
| "join sep [x] = x"
| "join sep (x # y # ys) = x @ sep @ join sep (y # ys)"

text \<open>\<open>String.prototype.split\<close> with a one-character separator: always at least one part.\<close>

fun str_split :: "jschar \<Rightarrow> jsstring \<Rightarrow> jsstring list" where
  "str_split sep [] = [[]]"
| "str_split sep (c # cs) =
     (if c = sep then [] # str_split sep cs
      else (case str_split sep cs of p # ps \<Rightarrow> (c # p) # ps | [] \<Rightarrow> [[c]]))"

text \<open>
  \<open>Array.prototype.slice(start, end)\<close> for integer arguments: a negative index counts
  from the end, and both are clamped to the array.
\<close>

definition slice :: "int \<Rightarrow> int \<Rightarrow> 'a list \<Rightarrow> 'a list" where
  "slice start stop xs =
     (let len = int (length xs);
          lo = (if start < 0 then max (len + start) 0 else min start len);
          hi = (if stop < 0 then max (len + stop) 0 else min stop len)
      in take (nat (hi - lo)) (drop (nat lo) xs))"

text \<open>Decimal rendering of a non-negative integer, as a template literal prints it.\<close>

definition digitChar :: "nat \<Rightarrow> jschar" where
  "digitChar d = of_nat (48 + d)"

fun showNat :: "nat \<Rightarrow> jsstring" where
  "showNat n = (if n < 10 then [digitChar n] else showNat (n div 10) @ [digitChar (n mod 10)])"

declare showNat.simps [simp del]


section \<open>Data model (types.ts)\<close>

record FigmaTextNode =
  "text" :: jsstring
  frameName :: jsstring
  framePath :: "jsstring list"
  nodeId :: jsstring


section \<open>Noise filter (text-filters)\<close>

subsection \<open>\<open>EXCLUDE_PATTERNS\<close>\<close>

definition isDigit :: "jschar \<Rightarrow> bool" where
  "isDigit c \<longleftrightarrow> 0x30 \<le> c \<and> c \<le> 0x39"

definition isLineTerminator :: "jschar \<Rightarrow> bool" where
  "isLineTerminator c \<longleftrightarrow> c \<in> {0xA, 0xD, 0x2028, 0x2029}"

text \<open>A pattern of the shape \<open>/^[...]+$/\<close>: one or more characters, all of the class.\<close>

definition allOfClass :: "(jschar \<Rightarrow> bool) \<Rightarrow> jsstring \<Rightarrow> bool" where
  "allOfClass P s \<longleftrightarrow> s \<noteq> [] \<and> list_all P s"

text \<open>\<open>singleChar: /^.$/\<close>; the dot does not match a line terminator.\<close>

definition singleChar :: "jsstring \<Rightarrow> bool" where
  "singleChar s \<longleftrightarrow> (case s of [c] \<Rightarrow> \<not> isLineTerminator c | _ \<Rightarrow> False)"

text \<open>\<open>numbersOnly: /^[\d\s,\.]+$/\<close>\<close>

definition numbersOnly :: "jsstring \<Rightarrow> bool" where
  "numbersOnly = allOfClass (\<lambda>c. isDigit c \<or> isWhiteSpace c \<or> c = 0x2C \<or> c = 0x2E)"

text \<open>\<open>iconText\<close>: the arrows U+2192, U+2190, U+2191, U+2193, the marks U+2713, U+2717,
  the sign U+00D7 and \<open>+ - = < >\<close>.\<close>

definition iconText :: "jsstring \<Rightarrow> bool" where
  "iconText = allOfClass (\<lambda>c. c \<in> {0x2192, 0x2190, 0x2191, 0x2193, 0x2713, 0x2717, 0xD7}
                               \<or> c \<in> set (str ''+-=<>''))"

text \<open>\<open>specialCharsOnly\<close>; 0x27, 0x22 and 0x5C are the two quotes and the backslash.\<close>

definition specialCharsOnly :: "jsstring \<Rightarrow> bool" where
  "specialCharsOnly = allOfClass (\<lambda>c. c \<in> set (str ''!@#$%^&*()_+-=[]{};:|,.<>/?'')
                                       \<or> c \<in> {0x27, 0x22, 0x5C})"

text \<open>\<open>currencyOnly\<close>: dollar, euro U+20AC, yen U+00A5, pound U+00A3, rupee U+20B9.\<close>

definition currencyOnly :: "jsstring \<Rightarrow> bool" where
  "currencyOnly = allOfClass (\<lambda>c. c \<in> {0x24, 0x20AC, 0xA5, 0xA3, 0x20B9})"

text \<open>
  \<open>emojiOnly: /^[\u{1F300}-\u{1F9FF}]+$/u\<close>. With the \<open>u\<close> flag the pattern reads code
  points; every code point of the range is a surrogate pair.
\<close>

definition inEmojiRange :: "jschar \<Rightarrow> jschar \<Rightarrow> bool" where
  "inEmojiRange hi lo \<longleftrightarrow>
     0xD800 \<le> hi \<and> hi \<le> 0xDBFF \<and> 0xDC00 \<le> lo \<and> lo \<le> 0xDFFF \<and>
     (let cp = 0x10000 + (unat hi - 0xD800) * 0x400 + (unat lo - 0xDC00)
      in 0x1F300 \<le> cp \<and> cp \<le> 0x1F9FF)"

fun emojiPairs :: "jsstring \<Rightarrow> bool" where
  "emojiPairs [] = True"
| "emojiPairs [c] = False"
| "emojiPairs (hi # lo # rest) = (inEmojiRange hi lo \<and> emojiPairs rest)"

definition emojiOnly :: "jsstring \<Rightarrow> bool" where
  "emojiOnly s \<longleftrightarrow> s \<noteq> [] \<and> emojiPairs s"

text \<open>\<open>dotsOnly\<close>: the full stop and the ellipsis U+2026.\<close>

definition dotsOnly :: "jsstring \<Rightarrow> bool" where
  "dotsOnly = allOfClass (\<lambda>c. c = 0x2E \<or> c = 0x2026)"

text \<open>
  \<open>placeholder: /^(lorem ipsum|placeholder|test|example|xxx|000)/i\<close>. Without the \<open>u\<close>
  flag, ignoring case folds the ASCII letters only: a character outside ASCII never matches
  an ASCII one.
\<close>

definition asciiUpper :: "jschar \<Rightarrow> jschar" where
  "asciiUpper c = (if 0x61 \<le> c \<and> c \<le> 0x7A then c - 0x20 else c)"

definition placeholder :: "jsstring \<Rightarrow> bool" where
  "placeholder s \<longleftrightarrow>
     list_ex (\<lambda>p. prefix (map asciiUpper p) (map asciiUpper s))
       [str ''lorem ipsum'', str ''placeholder'', str ''test'', str ''example'', str ''xxx'',
        str ''000'']"

text \<open>\<open>version: /^v?\d+\.\d+(\.\d+)?$/\<close>: two or three dot-separated runs of digits after
  an optional \<open>v\<close>.\<close>

definition version :: "jsstring \<Rightarrow> bool" where
  "version s \<longleftrightarrow>
     (let body = (case s of c # cs \<Rightarrow> if c = 0x76 then cs else s | [] \<Rightarrow> s);
          parts = str_split 0x2E body
      in (length parts = 2 \<or> length parts = 3) \<and> list_all (allOfClass isDigit) parts)"

definition EXCLUDE_PATTERNS :: "(jsstring \<Rightarrow> bool) list" where
  "EXCLUDE_PATTERNS =
     [singleChar, numbersOnly, iconText, specialCharsOnly, currencyOnly, emojiOnly, dotsOnly,
      placeholder, version]"

definition EXCLUDE_FRAME_KEYWORDS :: "jsstring list" where
  "EXCLUDE_FRAME_KEYWORDS =
     [str ''icon'', str ''logo'', str ''badge'', str ''avatar'', str ''image'', str ''img'',
      str ''decoration'', str ''divider'', str ''spacer'', str ''line'', str ''dot'',
      str ''bullet'', str ''marker'']"

text \<open>\<open>COMMON_REPETITIVE_TEXT\<close>: bullet U+2022, slash, bar, hyphen, the dashes U+2014 and
  U+2013, plus, and the sign U+00D7.\<close>

definition COMMON_REPETITIVE_TEXT :: "jsstring list" where
  "COMMON_REPETITIVE_TEXT =
     [[0x2022], str ''/'', str ''|'', str ''-'', [0x2014], [0x2013], str ''+'', [0xD7]]"

subsection \<open>The filters\<close>

definition shouldExcludeByContent :: "jsstring \<Rightarrow> bool" where
  "shouldExcludeByContent txt =
     (let trimmed = trim txt in
      if length trimmed < 2 then True
      else if list_ex (\<lambda>pattern. pattern trimmed) EXCLUDE_PATTERNS then True
      else if trimmed \<in> set COMMON_REPETITIVE_TEXT then True
      else False)"

text \<open>
  \<open>String.prototype.toLowerCase\<close> follows the Unicode case tables, which are not part of
  the repository: it is the parameter \<open>toLowerCase\<close>.
\<close>

definition shouldExcludeByFrameName :: "(jsstring \<Rightarrow> jsstring) \<Rightarrow> jsstring list \<Rightarrow> bool" where
  "shouldExcludeByFrameName toLowerCase path =
     (let frameNameLower = toLowerCase (join (str '' '') path)
      in list_ex (\<lambda>keyword. sublist keyword frameNameLower) EXCLUDE_FRAME_KEYWORDS)"

text \<open>
  Both branches of \<open>removeDuplicateTexts\<close> are \<open>nodes.filter\<close> over a closure that keeps a
  \<open>Set\<close> of the keys seen so far: \<open>filterSeen\<close> is that filter, for the key of the branch.
\<close>

fun filterSeen :: "(FigmaTextNode \<Rightarrow> jsstring) \<Rightarrow> jsstring set \<Rightarrow> FigmaTextNode list
    \<Rightarrow> FigmaTextNode list" where
  "filterSeen key seen [] = []"
| "filterSeen key seen (node # nodes) =
     (if key node \<in> seen then filterSeen key seen nodes
      else node # filterSeen key (insert (key node) seen) nodes)"

definition contextPath :: "FigmaTextNode \<Rightarrow> jsstring" where
  "contextPath node =
     (let pathDepth = length (framePath node) in
      if pathDepth \<ge> 2 then join (str '' > '') (slice (-2) (int pathDepth) (framePath node))
      else if pathDepth = 1 then hd (framePath node)
      else str ''root'')"

definition contextKey :: "FigmaTextNode \<Rightarrow> jsstring" where
  "contextKey node = contextPath node @ str ''::'' @ text node"

definition removeDuplicateTexts :: "FigmaTextNode list \<Rightarrow> bool \<Rightarrow> FigmaTextNode list" where
  "removeDuplicateTexts nodes contextAware =
     (if \<not> contextAware then filterSeen text {} nodes
      else filterSeen contextKey {} nodes)"

text \<open>The options object; an absent member takes the default of the destructuring.\<close>

record FilterOptions =
  minLength :: "int option"
  excludeByContent :: "bool option"
  excludeByFrameName :: "bool option"
  removeDuplicates :: "bool option"
  contextAwareDuplicates :: "bool option"
  maxLength :: "int option"

record FilterStats =
  byContent :: int
  byFrameName :: int
  byLength :: int
  duplicates :: int

record FilterResult =
  filtered :: "FigmaTextNode list"
  excluded :: FilterStats

definition orDefault :: "'a option \<Rightarrow> 'a \<Rightarrow> 'a" where
  "orDefault v d = (case v of None \<Rightarrow> d | Some x \<Rightarrow> x)"

definition filterTextNodes :: "(jsstring \<Rightarrow> jsstring) \<Rightarrow> FigmaTextNode list \<Rightarrow> FilterOptions
    \<Rightarrow> FilterResult" where
  "filterTextNodes toLowerCase nodes options =
     (let minLen = orDefault (minLength options) 2;
          byC = orDefault (excludeByContent options) True;
          byF = orDefault (excludeByFrameName options) True;
          dedup = orDefault (removeDuplicates options) True;
          ctxAware = orDefault (contextAwareDuplicates options) True;
          maxLen = orDefault (maxLength options) 500;
          result0 = nodes;
          result1 = (if byC then filter (\<lambda>node. \<not> shouldExcludeByContent (text node)) result0
                     else result0);
          statC = (if byC then int (length result0) - int (length result1) else 0);
          result2 = (if byF
                     then filter (\<lambda>node. \<not> shouldExcludeByFrameName toLowerCase (framePath node))
                            result1
                     else result1);
          statF = (if byF then int (length result1) - int (length result2) else 0);
          result3 = filter (\<lambda>node. let len = int (length (trim (text node)))
                                    in len \<ge> minLen \<and> len \<le> maxLen) result2;
          statL = int (length result2) - int (length result3);
          result4 = (if dedup then removeDuplicateTexts result3 ctxAware else result3);
          statD = (if dedup then int (length result3) - int (length result4) else 0)
      in \<lparr>filtered = result4,
          excluded = \<lparr>byContent = statC, byFrameName = statF, byLength = statL,
                      duplicates = statD\<rparr>\<rparr>)"


section \<open>Document tree extractor (figma)\<close>

datatype FigmaNode = FigmaNode
  (node_id: jsstring) (node_name: jsstring) (node_type: jsstring)
  (characters: "jsstring option") (children: "FigmaNode list option") (visible: "bool option")

text \<open>\<open>node.id.split(':')[1]?.substring(0, 4) || node.id.substring(0, 4)\<close>\<close>

definition shortId :: "jsstring \<Rightarrow> jsstring" where
  "shortId nid =
     (case str_split 0x3A nid of
        _ # second # _ \<Rightarrow> (if take 4 second \<noteq> [] then take 4 second else take 4 nid)
      | _ \<Rightarrow> take 4 nid)"

definition pathEntry :: "jsstring \<Rightarrow> jsstring \<Rightarrow> jsstring \<Rightarrow> jsstring" where
  "pathEntry ty nm nid =
     (if ty = str ''INSTANCE'' \<or> ty = str ''COMPONENT''
      then nm @ str '' ['' @ shortId nid @ str '']''
      else nm)"

definition isContainer :: "jsstring \<Rightarrow> bool" where
  "isContainer ty \<longleftrightarrow> ty = str ''FRAME'' \<or> ty = str ''COMPONENT'' \<or> ty = str ''INSTANCE''"

text \<open>\<open>currentPath[currentPath.length - 1] || 'Root'\<close>\<close>

definition frameNameOf :: "jsstring list \<Rightarrow> jsstring" where
  "frameNameOf currentPath =
     (if currentPath = [] \<or> last currentPath = [] then str ''Root'' else last currentPath)"

text \<open>
  \<open>extractTextNodes\<close>; \<open>extractChildren\<close> is its loop over \<open>node.children\<close>. The
  \<open>debugMode\<close> argument only logs and is left out.
\<close>

fun extractTextNodes :: "FigmaNode \<Rightarrow> jsstring list \<Rightarrow> bool \<Rightarrow> FigmaTextNode list"
  and extractChildren :: "FigmaNode list \<Rightarrow> jsstring list \<Rightarrow> bool \<Rightarrow> FigmaTextNode list" where
  "extractTextNodes (FigmaNode nid nm ty chars kids vis) path onlyVisible =
     (if onlyVisible \<and> vis = Some False then []
      else
        let currentPath = (if isContainer ty then path @ [pathEntry ty nm nid] else path);
            own = (case chars of
                     Some cs \<Rightarrow>
                       if ty = str ''TEXT'' \<and> cs \<noteq> []
                       then [\<lparr>text = trim cs, frameName = frameNameOf currentPath,
                              framePath = currentPath, nodeId = nid\<rparr>]
                       else []
                   | None \<Rightarrow> [])
        in own @ (case kids of None \<Rightarrow> [] | Some cs \<Rightarrow> extractChildren cs currentPath onlyVisible))"
| "extractChildren [] path onlyVisible = []"
| "extractChildren (child # rest) path onlyVisible =
     extractTextNodes child path onlyVisible @ extractChildren rest path onlyVisible"


section \<open>Token estimators\<close>

text \<open>The character class of the Hiragana (U+3040 to U+309F), Katakana (U+30A0 to U+30FF)
  and CJK (U+4E00 to U+9FAF) blocks.\<close>

definition isJapaneseChar :: "jschar \<Rightarrow> bool" where
  "isJapaneseChar c \<longleftrightarrow>
     (0x3040 \<le> c \<and> c \<le> 0x309F) \<or> (0x30A0 \<le> c \<and> c \<le> 0x30FF) \<or> (0x4E00 \<le> c \<and> c \<le> 0x9FAF)"

text \<open>
  The script-aware \<open>estimateTokens\<close> (the estimator that \<open>estimateBatchTokens\<close> with an
  existing-key list and a batch size uses). The lengths are integers far below \<open>2^53\<close>, so
  the products, quotients and \<open>Math.ceil\<close> of the source are exact; they are computed
  over the rationals.
\<close>

definition estimateTokens :: "jsstring \<Rightarrow> int" where
  "estimateTokens txt =
     (let japaneseChars = int (length (filter isJapaneseChar txt));
          otherChars = int (length txt) - japaneseChars;
          japaneseTokens = \<lceil>of_int japaneseChars * (3 / 2 :: rat)\<rceil>;
          otherTokens = \<lceil>of_int otherChars / (4 :: rat)\<rceil>
      in japaneseTokens + otherTokens)"

text \<open>The \<open>estimateTokens\<close> of \<open>token-estimator.ts\<close>: \<open>Math.ceil(text.length / 3)\<close>.\<close>

definition estimateTokens_flat :: "jsstring \<Rightarrow> int" where
  "estimateTokens_flat txt = \<lceil>of_int (int (length txt)) / (3 :: rat)\<rceil>"


section \<open>Batched key generator (openai.ts)\<close>

subsection \<open>JSON values\<close>

text \<open>
  The values that \<open>JSON.parse\<close> builds, and \<open>undefined\<close>, which reading a missing member
  gives. An object is the list of its own members in enumeration order, each key once.
  \<open>I18nJson\<close> is the object type of \<open>types.ts\<close>; the provider is asked for a JSON object
  and the source casts what it parses to \<open>I18nJson\<close>, so a parsed response is an object here.
  Walking a key can leave the JSON data: \<open>JFunction\<close> and \<open>JNativeObject\<close> stand for the
  built-in functions and objects that a member read can reach through a prototype (such as
  \<open>String.prototype.trim\<close> or \<open>Object.prototype\<close>), each named by a number. Outside the
  model: the rule that integer-like keys are enumerated before the others.
\<close>

datatype json =
    JString jsstring
  | JNumber rat
  | JBool bool
  | JNull
  | JUndefined
  | JArray "json list"
  | JObject "(jsstring \<times> json) list"
  | JFunction nat
  | JNativeObject nat

type_synonym I18nJson = "(jsstring \<times> json) list"

text \<open>\<open>{ ...target, ...src }\<close> onto an existing object: a member of \<open>src\<close> overwrites the member
  of the same name in place, a new one is appended.\<close>

definition spread :: "I18nJson \<Rightarrow> I18nJson \<Rightarrow> I18nJson" where
  "spread target src = fold (\<lambda>(k, v). AList.update k v) src target"

text \<open>A canonical array index: decimal digits without a leading zero.\<close>

definition parseIndex :: "jsstring \<Rightarrow> nat option" where
  "parseIndex s =
     (if s \<noteq> [] \<and> list_all isDigit s \<and> (length s = 1 \<or> hd s \<noteq> 0x30)
      then Some (fold (\<lambda>c n. 10 * n + (unat c - 48)) s 0)
      else None)"

text \<open>The own members of a JSON value: the members of an object, the elements and the
  \<open>length\<close> of an array, the characters and the \<open>length\<close> of a string.\<close>

definition ownMember :: "json \<Rightarrow> jsstring \<Rightarrow> json option" where
  "ownMember current part =
     (case current of
        JObject kvs \<Rightarrow> map_of kvs part
      | JArray xs \<Rightarrow>
          (case parseIndex part of
             Some i \<Rightarrow> if i < length xs then Some (xs ! i) else None
           | None \<Rightarrow> if part = str ''length'' then Some (JNumber (of_nat (length xs)))
                     else None)
      | JString s \<Rightarrow>
          (case parseIndex part of
             Some i \<Rightarrow> if i < length s then Some (JString [s ! i]) else None
           | None \<Rightarrow> if part = str ''length'' then Some (JNumber (of_nat (length s)))
                     else None)
      | _ \<Rightarrow> None)"

text \<open>
  Every other member comes from the built-in objects of the language (the prototype chain
  of the value, or the value itself when it is a built-in), which are not part of the
  repository: the table \<open>builtinMember\<close> is a parameter. It gives the value read, \<open>JUndefined\<close>
  for a name found nowhere, or \<open>None\<close> when the read throws.
\<close>

type_synonym builtins = "json \<Rightarrow> jsstring \<Rightarrow> json option"

text \<open>\<open>current[part]\<close>. Reading a member of \<open>null\<close> or \<open>undefined\<close> throws a \<open>TypeError\<close>:
  the result \<open>None\<close>. An own member shadows a built-in one.\<close>

definition getProp :: "builtins \<Rightarrow> json \<Rightarrow> jsstring \<Rightarrow> json option" where
  "getProp builtinMember current part =
     (case current of
        JNull \<Rightarrow> None
      | JUndefined \<Rightarrow> None
      | _ \<Rightarrow> (case ownMember current part of
                Some v \<Rightarrow> Some v
              | None \<Rightarrow> builtinMember current part))"

text \<open>\<open>for (const part of parts) { current = current[part]; }\<close>\<close>

fun walk :: "builtins \<Rightarrow> json \<Rightarrow> jsstring list \<Rightarrow> json option" where
  "walk builtinMember current [] = Some current"
| "walk builtinMember current (part # parts) =
     (case getProp builtinMember current part of
        None \<Rightarrow> None
      | Some next \<Rightarrow> walk builtinMember next parts)"

subsection \<open>\<open>extractAllKeys\<close>, \<open>buildPrompt\<close>\<close>

text \<open>The \<open>for ... in\<close> loop over the members; an empty prefix is falsy. A built-in object
  passes the \<open>typeof\<close> test and has no enumerable member, so the recursion into it adds no
  key; a built-in function is a leaf.\<close>

fun extractAllKeys :: "I18nJson \<Rightarrow> jsstring \<Rightarrow> jsstring list" where
  "extractAllKeys [] pfx = []"
| "extractAllKeys ((key, v) # rest) pfx =
     (let fullKey = (if pfx \<noteq> [] then pfx @ str ''.'' @ key else key) in
      (case v of
         JObject kvs \<Rightarrow> extractAllKeys kvs fullKey
       | JNativeObject _ \<Rightarrow> []
       | _ \<Rightarrow> [fullKey])
      @ extractAllKeys rest pfx)"

definition nestedIntro :: jsstring where
  \<open>nestedIntro = concat
     [str ''You are generating i18n keys for a Japanese UI based on a Figma file.\<newline>'',
      str ''Follow this key style example:\<newline>'',
      str ''\<newline>'']\<close>

definition nestedRules :: jsstring where
  \<open>nestedRules = concat
     [str ''\<newline>'',
      str ''\<newline>'',
      str ''Naming Rules for NESTED structure:\<newline>'',
      str ''- Group keys by screen/frame name from the frame path\<newline>'',
      str ''- Use the first meaningful frame name as the top-level key in PascalCase (e.g., "DashboardNavigation", "DepositDetailsModal", "Discover")\<newline>'',
      str ''- Under each screen, create descriptive keys for the text elements in snake_case\<newline>'',
      str ''- Element keys should be short and descriptive (e.g., "home", "insurance", "atm_title", "branch_name")\<newline>'',
      str ''- You can create nested sub-groups when needed (e.g., "merchandise_tab" under "DashboardNavigation")\<newline>'',
      str ''- Common element types: title, subtitle, description, button, label, placeholder, error, hint, tab\<newline>'',
      str ''\<newline>'',
      str ''Given the following Japanese texts from Figma:\<newline>'',
      str ''\<newline>'']\<close>

definition nestedFormat :: jsstring where
  \<open>nestedFormat = concat
     [str ''\<newline>'',
      str ''\<newline>'',
      str ''Generate NESTED i18n keys grouped by screen name. Each key MUST be unique within its screen.\<newline>'',
      str ''Return ONLY valid JSON, no explanation or extra text.\<newline>'',
      str ''\<newline>'',
      str ''Expected format:\<newline>'',
      str ''{\<newline>'',
      str ''  "ScreenName": {\<newline>'',
      str ''    "key": "'' @ [0x65E5, 0x672C, 0x8A9E, 0x30C6, 0x30AD, 0x30B9, 0x30C8] @ str ''",\<newline>'',
      str ''    "another_key": "'' @ [0x65E5, 0x672C, 0x8A9E, 0x30C6, 0x30AD, 0x30B9, 0x30C8] @ str ''",\<newline>'',
      str ''    "nested_group": {\<newline>'',
      str ''      "sub_key": "'' @ [0x65E5, 0x672C, 0x8A9E, 0x30C6, 0x30AD, 0x30B9, 0x30C8] @ str ''"\<newline>'',
      str ''    }\<newline>'',
      str ''  }\<newline>'',
      str ''}'']\<close>

definition flatIntro :: jsstring where
  \<open>flatIntro = concat
     [str ''You are generating i18n keys for a Japanese UI based on a Figma file.\<newline>'',
      str ''Follow this key style example:\<newline>'',
      str ''\<newline>'']\<close>

definition flatRules :: jsstring where
  \<open>flatRules = concat
     [str ''\<newline>'',
      str ''\<newline>'',
      str ''Naming Rules:\<newline>'',
      str ''- Use SHORT, FLAT keys with format: "screen_type" or "screen_type_detail"\<newline>'',
      str ''- Keep keys concise (2-3 parts max, separated by underscores)\<newline>'',
      str ''- Common patterns:\<newline>'',
      str ''  - "contact_title" - page/form title\<newline>'',
      str ''  - "contact_email" - email field label\<newline>'',
      str ''  - "contact_category" - category field label\<newline>'',
      str ''  - "contact_submit" - submit button\<newline>'',
      str ''  - "menu_housewife" - menu option\<newline>'',
      str ''  - "savings_desc" - description text\<newline>'',
      str ''- Component types: title, label, button, desc, body, placeholder, error, hint\<newline>'',
      str ''- Avoid redundancy: "contactForm_label_email" '' @ [0x2192] @ str '' "contact_email"\<newline>'',
      str ''- Use the frame path to understand screen context\<newline>'',
      str ''- Make keys unique - never repeat the same key\<newline>'',
      str ''\<newline>'',
      str ''Given the following Japanese texts from Figma:\<newline>'',
      str ''\<newline>'']\<close>

definition flatFormat :: jsstring where
  \<open>flatFormat = concat
     [str ''\<newline>'',
      str ''\<newline>'',
      str ''Generate SHORT, FLAT i18n keys (no nested objects). Each key MUST be unique.\<newline>'',
      str ''Return ONLY valid JSON, no explanation or extra text.\<newline>'',
      str ''\<newline>'',
      str ''Expected format:\<newline>'',
      str ''{\<newline>'',
      str ''  "contact_title": "'' @ [0x65E5, 0x672C, 0x8A9E, 0x30C6, 0x30AD, 0x30B9, 0x30C8] @ str ''",\<newline>'',
      str ''  "contact_email": "'' @ [0x65E5, 0x672C, 0x8A9E, 0x30C6, 0x30AD, 0x30B9, 0x30C8] @ str ''"\<newline>'',
      str ''}'']\<close>

definition nodeInfo :: "nat \<Rightarrow> FigmaTextNode \<Rightarrow> jsstring" where
  \<open>nodeInfo idx node =
     showNat (idx + 1) @ str ''. Frame: "'' @ frameName node @ str ''" (Path: ''
       @ join (str '' > '') (framePath node) @ str '')\<newline>   Text: "'' @ text node @ str ''"''\<close>

definition textsInfo :: "FigmaTextNode list \<Rightarrow> jsstring" where
  "textsInfo nodes =
     join (str ''\<newline>\<newline>'') (map (\<lambda>(idx, node). nodeInfo idx node) (enumerate 0 nodes))"

definition buildPrompt :: "FigmaTextNode list \<Rightarrow> jsstring \<Rightarrow> bool \<Rightarrow> jsstring" where
  "buildPrompt nodes contextSample useNestedKeys =
     (if useNestedKeys
      then nestedIntro @ contextSample @ nestedRules @ textsInfo nodes @ nestedFormat
      else flatIntro @ contextSample @ flatRules @ textsInfo nodes @ flatFormat)"

subsection \<open>The provider\<close>

text \<open>
  A request of \<open>openai.chat.completions.create\<close>, and what comes back. The provider is a
  function of all the requests sent so far, the current one last: any deterministic or
  scripted sequence of answers is such a function. \<open>CallFailed\<close> is a rejected call; an
  absent \<open>choices[0]?.message?.content\<close> is \<open>None\<close>.
\<close>

record request =
  model :: jsstring
  systemContent :: jsstring
  userContent :: jsstring
  temperature :: rat
  jsonObjectFormat :: bool

record TokenUsage =
  promptTokens :: int
  completionTokens :: int
  totalTokens :: int

record response =
  content :: "jsstring option"
  usage :: "TokenUsage option"

datatype reply = CallFailed | Reply response

type_synonym provider = "request list \<Rightarrow> reply"

definition systemMessage :: jsstring where
  "systemMessage = str ''You are a helpful assistant that generates i18n keys for Japanese text. You always respond with valid JSON only.''"

definition mkRequest :: "jsstring \<Rightarrow> rat \<Rightarrow> request" where
  "mkRequest prompt temp =
     \<lparr>model = str ''gpt-4o-mini'', systemContent = systemMessage, userContent = prompt,
      temperature = temp, jsonObjectFormat = True\<rparr>"

definition create :: "provider \<Rightarrow> request list \<Rightarrow> request \<Rightarrow> reply \<times> request list" where
  "create P sent rq = (P (sent @ [rq]), sent @ [rq])"

subsection \<open>Duplicate detection and regeneration\<close>

definition findDuplicateKeys :: "I18nJson \<Rightarrow> jsstring list \<Rightarrow> jsstring list" where
  "findDuplicateKeys generated existingKeys =
     filter (\<lambda>key. key \<in> set existingKeys) (extractAllKeys generated [])"

text \<open>\<open>None\<close>: walking a key threw a \<open>TypeError\<close>.\<close>

fun createNodesForRegeneration :: "builtins \<Rightarrow> FigmaTextNode list \<Rightarrow> I18nJson
    \<Rightarrow> jsstring list \<Rightarrow> FigmaTextNode list option" where
  "createNodesForRegeneration builtinMember originalNodes generatedKeys [] = Some []"
| "createNodesForRegeneration builtinMember originalNodes generatedKeys (duplicateKey # rest) =
     (case walk builtinMember (JObject generatedKeys) (str_split 0x2E duplicateKey) of
        None \<Rightarrow> None
      | Some current \<Rightarrow>
          (let v = (case current of JString s \<Rightarrow> s | _ \<Rightarrow> []);
               found = (case find (\<lambda>n. text n = v) originalNodes of
                          Some node \<Rightarrow> [node] | None \<Rightarrow> [])
           in case createNodesForRegeneration builtinMember originalNodes generatedKeys rest of
                None \<Rightarrow> None
              | Some others \<Rightarrow> Some (found @ others)))"

text \<open>
  \<open>filteredParsed\<close> while it is filled: its own members, and the prototype it was given, if
  any (\<open>None\<close>: the one of an object literal). The assignment \<open>filteredParsed[key] = current\<close>
  adds or overwrites an own member, except under the name \<open>__proto__\<close> while that name
  resolves to the inherited accessor: it does as long as \<open>filteredParsed\<close> has no own member of
  that name and its prototype is neither \<open>null\<close> nor a parsed object with an own member of
  that name. The accessor adds no member; it replaces the prototype when \<open>current\<close> is an
  object or \<open>null\<close>, and does nothing otherwise.
\<close>

type_synonym filtered = "I18nJson \<times> json option"

definition setterInherited :: "filtered \<Rightarrow> bool" where
  "setterInherited fp \<longleftrightarrow>
     str ''__proto__'' \<notin> fst ` set (fst fp)
     \<and> (case snd fp of
          None \<Rightarrow> True
        | Some JNull \<Rightarrow> False
        | Some (JObject kvs) \<Rightarrow> str ''__proto__'' \<notin> fst ` set kvs
        | Some _ \<Rightarrow> True)"

definition assignMember :: "jsstring \<Rightarrow> json \<Rightarrow> filtered \<Rightarrow> filtered" where
  "assignMember key current fp =
     (if key = str ''__proto__'' \<and> setterInherited fp
      then (case current of
              JObject _ \<Rightarrow> (fst fp, Some current)
            | JArray _ \<Rightarrow> (fst fp, Some current)
            | JFunction _ \<Rightarrow> (fst fp, Some current)
            | JNativeObject _ \<Rightarrow> (fst fp, Some current)
            | JNull \<Rightarrow> (fst fp, Some current)
            | _ \<Rightarrow> fp)
      else (AList.update key current (fst fp), snd fp))"

text \<open>
  What \<open>for ... in\<close> enumerates on \<open>filteredParsed\<close>: the own members, then the enumerable
  members of the prototype that no own member shadows (the members of a parsed object, the
  elements of an array; a built-in has none).
\<close>

definition inheritedEntries :: "json option \<Rightarrow> I18nJson" where
  "inheritedEntries proto =
     (case proto of
        Some (JObject kvs) \<Rightarrow> kvs
      | Some (JArray xs) \<Rightarrow> zip (map showNat [0..<length xs]) xs
      | _ \<Rightarrow> [])"

definition forInEntries :: "filtered \<Rightarrow> I18nJson" where
  "forInEntries fp =
     fst fp @ filter (\<lambda>(k, v). k \<notin> fst ` set (fst fp)) (inheritedEntries (snd fp))"

text \<open>The loop that fills \<open>filteredParsed\<close> (lines 321 to 332).\<close>

fun filterParsed :: "builtins \<Rightarrow> I18nJson \<Rightarrow> jsstring list \<Rightarrow> jsstring list \<Rightarrow> filtered
    \<Rightarrow> filtered option" where
  "filterParsed builtinMember parsed dups [] filteredParsed = Some filteredParsed"
| "filterParsed builtinMember parsed dups (key # keys) filteredParsed =
     (if key \<notin> set dups
      then (case walk builtinMember (JObject parsed) (str_split 0x2E key) of
              None \<Rightarrow> None
            | Some current \<Rightarrow>
                filterParsed builtinMember parsed dups keys
                  (assignMember key current filteredParsed))
      else filterParsed builtinMember parsed dups keys filteredParsed)"

subsection \<open>\<open>generateKeysInBatches\<close>\<close>

datatype error =
    ProviderFailure  \<comment> \<open>the rejected first-pass call, propagated as it is\<close>
  | NoResponse       \<comment> \<open>"No response from OpenAI"\<close>
  | InvalidJSON      \<comment> \<open>"Invalid JSON response from OpenAI"\<close>

text \<open>The mutable locals of the invocation; \<open>allExistingKeys\<close> is the \<open>Set\<close>, in insertion
  order.\<close>

record gen_state =
  results :: "I18nJson list"
  tokens :: TokenUsage
  allExistingKeys :: "jsstring list"

definition setAdd :: "jsstring \<Rightarrow> jsstring list \<Rightarrow> jsstring list" where
  "setAdd k ks = (if k \<in> set ks then ks else ks @ [k])"

definition addKeys :: "jsstring list \<Rightarrow> gen_state \<Rightarrow> gen_state" where
  "addKeys ks st = st\<lparr>allExistingKeys := fold setAdd ks (allExistingKeys st)\<rparr>"

definition trackUsage :: "TokenUsage option \<Rightarrow> gen_state \<Rightarrow> gen_state" where
  "trackUsage u st =
     (case u of
        None \<Rightarrow> st
      | Some u' \<Rightarrow>
          st\<lparr>tokens := \<lparr>promptTokens = promptTokens (tokens st) + promptTokens u',
                         completionTokens = completionTokens (tokens st) + completionTokens u',
                         totalTokens = totalTokens (tokens st) + totalTokens u'\<rparr>\<rparr>)"

definition retrySuffix :: "jsstring list \<Rightarrow> jsstring" where
  "retrySuffix dups =
     str ''\<newline>\<newline>IMPORTANT: The following keys are already taken and MUST NOT be used:\<newline>''
       @ join (str '', '') dups @ str ''\<newline>\<newline>Generate completely DIFFERENT keys.''"

text \<open>
  The branch \<open>duplicates.length > 0\<close> (lines 278 to 340). It runs inside the \<open>try\<close>, so a
  rejected retry call, a \<open>TypeError\<close> and a parse failure all end in \<open>InvalidJSON\<close>. When
  the retry content is missing or empty, the \<open>if (retryContent)\<close> has no \<open>else\<close>: nothing is
  pushed and the loop goes on.
\<close>

definition regenerate :: "builtins \<Rightarrow> provider \<Rightarrow> (jsstring \<Rightarrow> I18nJson option) \<Rightarrow> jsstring
    \<Rightarrow> bool \<Rightarrow> FigmaTextNode list \<Rightarrow> I18nJson \<Rightarrow> jsstring list \<Rightarrow> request list
    \<Rightarrow> gen_state \<Rightarrow> request list \<times> (error + gen_state)" where
  "regenerate builtinMember P parse contextSample useNestedKeys batch parsed dups sent st =
     (case createNodesForRegeneration builtinMember batch parsed dups of
        None \<Rightarrow> (sent, Inl InvalidJSON)
      | Some nodesToRegenerate \<Rightarrow>
          (let retryPrompt = buildPrompt nodesToRegenerate contextSample useNestedKeys
                               @ retrySuffix dups;
               (retryReply, sent2) = create P sent (mkRequest retryPrompt (1 / 2))
           in case retryReply of
                CallFailed \<Rightarrow> (sent2, Inl InvalidJSON)
              | Reply retryResponse \<Rightarrow>
                  (case content retryResponse of
                     None \<Rightarrow> (sent2, Inr st)
                   | Some retryContent \<Rightarrow>
                       if retryContent = [] then (sent2, Inr st)
                       else
                         (case parse retryContent of
                            None \<Rightarrow> (sent2, Inl InvalidJSON)
                          | Some retryParsed \<Rightarrow>
                              (let st2 = trackUsage (usage retryResponse) st in
                               case filterParsed builtinMember parsed dups
                                      (extractAllKeys parsed []) ([], None) of
                                 None \<Rightarrow> (sent2, Inl InvalidJSON)
                               | Some filteredParsed \<Rightarrow>
                                   (sent2,
                                    Inr (addKeys
                                          (extractAllKeys (forInEntries filteredParsed) [])
                                          (addKeys (extractAllKeys retryParsed [])
                                            (st2\<lparr>results := results st2
                                                   @ [spread (spread [] (fst filteredParsed))
                                                        retryParsed]\<rparr>)))))))))"

text \<open>The body of \<open>for (const batch of batches)\<close> (lines 234 to 352).\<close>

definition processBatch :: "builtins \<Rightarrow> provider \<Rightarrow> (jsstring \<Rightarrow> I18nJson option) \<Rightarrow> jsstring
    \<Rightarrow> bool \<Rightarrow> FigmaTextNode list \<Rightarrow> request list \<Rightarrow> gen_state
    \<Rightarrow> request list \<times> (error + gen_state)" where
  "processBatch builtinMember P parse contextSample useNestedKeys batch sent st =
     (let prompt = buildPrompt batch contextSample useNestedKeys;
          (reply, sent1) = create P sent (mkRequest prompt (3 / 10))
      in case reply of
           CallFailed \<Rightarrow> (sent1, Inl ProviderFailure)
         | Reply response \<Rightarrow>
             (case content response of
                None \<Rightarrow> (sent1, Inl NoResponse)
              | Some c \<Rightarrow>
                  if c = [] then (sent1, Inl NoResponse)
                  else
                    (let st1 = trackUsage (usage response) st in
                     case parse c of
                       None \<Rightarrow> (sent1, Inl InvalidJSON)
                     | Some parsed \<Rightarrow>
                         (let dups = findDuplicateKeys parsed (allExistingKeys st1) in
                          if dups \<noteq> []
                          then regenerate builtinMember P parse contextSample useNestedKeys
                                 batch parsed dups sent1 st1
                          else (sent1,
                                Inr (addKeys (extractAllKeys parsed [])
                                      (st1\<lparr>results := results st1 @ [parsed]\<rparr>)))))))"

fun processBatches :: "builtins \<Rightarrow> provider \<Rightarrow> (jsstring \<Rightarrow> I18nJson option) \<Rightarrow> jsstring
    \<Rightarrow> bool \<Rightarrow> FigmaTextNode list list \<Rightarrow> request list \<Rightarrow> gen_state
    \<Rightarrow> request list \<times> (error + gen_state)" where
  "processBatches builtinMember P parse contextSample useNestedKeys [] sent st = (sent, Inr st)"
| "processBatches builtinMember P parse contextSample useNestedKeys (batch # rest) sent st =
     (case processBatch builtinMember P parse contextSample useNestedKeys batch sent st of
        (sent', Inl e) \<Rightarrow> (sent', Inl e)
      | (sent', Inr st') \<Rightarrow>
          processBatches builtinMember P parse contextSample useNestedKeys rest sent' st')"

text \<open>
  \<open>for (let i = 0; i < nodes.length; i += batchSize)\<close>. The loop does not end for a batch
  size of zero or less on a non-empty input: not returning is \<open>None\<close>.
\<close>

partial_function (option) splitBatches :: "int \<Rightarrow> int \<Rightarrow> FigmaTextNode list
    \<Rightarrow> FigmaTextNode list list \<Rightarrow> FigmaTextNode list list option" where
  "splitBatches i batchSize nodes batches =
     (if i < int (length nodes)
      then splitBatches (i + batchSize) batchSize nodes
             (batches @ [slice i (i + batchSize) nodes])
      else Some batches)"

declare splitBatches.simps [code]

text \<open>\<open>results.reduce((acc, curr) => ({ ...acc, ...curr }), {})\<close>\<close>

definition mergeResults :: "I18nJson list \<Rightarrow> I18nJson" where
  "mergeResults rs = foldl (\<lambda>acc curr. spread (spread [] acc) curr) [] rs"

record GenerationResult =
  generatedKeys :: I18nJson
  tokenUsage :: TokenUsage

definition initialState :: "jsstring list \<Rightarrow> gen_state" where
  "initialState existingKeys =
     \<lparr>results = [],
      tokens = \<lparr>promptTokens = 0, completionTokens = 0, totalTokens = 0\<rparr>,
      allExistingKeys = fold setAdd existingKeys []\<rparr>"

text \<open>
  \<open>generateKeysInBatches\<close>, with the provider, \<open>JSON.parse\<close> and the table of built-in
  members as parameters in place of the API key. The result carries the requests that were sent; \<open>None\<close> is an invocation that
  does not return. The defaults of the source are an empty key list, a batch size of 10 and
  flat keys.
\<close>

definition generateKeysInBatches :: "builtins \<Rightarrow> provider \<Rightarrow> (jsstring \<Rightarrow> I18nJson option)
    \<Rightarrow> FigmaTextNode list \<Rightarrow> jsstring \<Rightarrow> jsstring list \<Rightarrow> int \<Rightarrow> bool
    \<Rightarrow> (request list \<times> (error + GenerationResult)) option" where
  "generateKeysInBatches builtinMember P parse nodes contextSample existingKeys batchSize
     useNestedKeys =
     (case splitBatches 0 batchSize nodes [] of
        None \<Rightarrow> None
      | Some batches \<Rightarrow>
          Some (case processBatches builtinMember P parse contextSample useNestedKeys batches []
                       (initialState existingKeys) of
                  (sent, Inl e) \<Rightarrow> (sent, Inl e)
                | (sent, Inr st) \<Rightarrow>
                    (sent, Inr \<lparr>generatedKeys = mergeResults (results st),
                               tokenUsage = tokens st\<rparr>)))"


section \<open>Definitions used by the statements\<close>

subsection \<open>The nodes a traversal visits\<close>

text \<open>
  The nodes that \<open>extractTextNodes\<close> reaches, in pre-order: a hidden node and its subtree are
  left out when \<open>onlyVisible\<close> is set. \<open>hasRawText\<close> is the guard
  \<open>node.type === 'TEXT' && node.characters\<close> read on a node: the characters are present
  and not the empty string.
\<close>

fun visitedNodes :: "bool \<Rightarrow> FigmaNode \<Rightarrow> FigmaNode list"
  and visitedChildren :: "bool \<Rightarrow> FigmaNode list \<Rightarrow> FigmaNode list" where
  "visitedNodes onlyVisible (FigmaNode nid nm ty chars kids vis) =
     (if onlyVisible \<and> vis = Some False then []
      else FigmaNode nid nm ty chars kids vis
           # (case kids of None \<Rightarrow> [] | Some cs \<Rightarrow> visitedChildren onlyVisible cs))"
| "visitedChildren onlyVisible [] = []"
| "visitedChildren onlyVisible (child # rest) =
     visitedNodes onlyVisible child @ visitedChildren onlyVisible rest"

definition hasRawText :: "FigmaNode \<Rightarrow> bool" where
  "hasRawText n \<longleftrightarrow>
     node_type n = str ''TEXT'' \<and> (case characters n of Some cs \<Rightarrow> cs \<noteq> [] | None \<Rightarrow> False)"

definition trimmedText :: "FigmaNode \<Rightarrow> jsstring" where
  "trimmedText n = (case characters n of Some cs \<Rightarrow> trim cs | None \<Rightarrow> [])"

subsection \<open>The estimate as the specification words it\<close>

text \<open>
  One and a half tokens for each character of the Japanese blocks and a quarter of a token
  for each other character, each sum rounded up: for \<open>j\<close> and \<open>other\<close> such characters,
  \<open>ceil(1.5 j) = (3 j + 1) div 2\<close> and \<open>ceil(other / 4) = (other + 3) div 4\<close>.
\<close>

definition claimedEstimate :: "jsstring \<Rightarrow> nat" where
  "claimedEstimate s =
     (let j = length (filter isJapaneseChar s);
          other = length (filter (\<lambda>c. \<not> isJapaneseChar c) s)
      in (3 * j + 1) div 2 + (other + 3) div 4)"

subsection \<open>The leaf entries of a parsed result\<close>



subsection \<open>The invariant of the collision registry\<close>



subsection \<open>Concrete inputs\<close>

text \<open>
  A provider that answers the \<open>i\<close>-th request with the \<open>i\<close>-th reply of a script and rejects
  any further call; a reply that carries a content and no usage; a text record.
\<close>

definition scripted :: "reply list \<Rightarrow> provider" where
  "scripted replies sent =
     (if 0 < length sent \<and> length sent \<le> length replies then replies ! (length sent - 1)
      else CallFailed)"

definition answer :: "string \<Rightarrow> reply" where
  "answer s = Reply \<lparr>content = Some (str s), usage = None\<rparr>"

definition record1 :: "string \<Rightarrow> FigmaTextNode" where
  "record1 s =
     \<lparr>text = str s, frameName = str ''Form'', framePath = [str ''Form''], nodeId = str ''1:2''\<rparr>"

lemmas run_defs = generateKeysInBatches_def splitBatches.simps slice_def processBatch_def
  regenerate_def create_def Let_def scripted_def answer_def findDuplicateKeys_def addKeys_def
  setAdd_def trackUsage_def initialState_def mergeResults_def spread_def str_def
  getProp_def ownMember_def assignMember_def setterInherited_def forInEntries_def inheritedEntries_def
  record1_def


section \<open>The noise filter\<close>

lemma filterSeen_subseq: "subseq (filterSeen key seen nodes) nodes"
  by (induction nodes arbitrary: seen) auto

lemma removeDuplicateTexts_subseq: "subseq (removeDuplicateTexts nodes contextAware) nodes"
  by (simp add: removeDuplicateTexts_def filterSeen_subseq)

lemma filterSeen_length: "length (filterSeen key seen nodes) \<le> length nodes"
  by (induction nodes arbitrary: seen) (auto simp: le_SucI)

lemma removeDuplicateTexts_length:
  "length (removeDuplicateTexts nodes contextAware) \<le> length nodes"
  by (simp add: removeDuplicateTexts_def filterSeen_length)

text \<open>
  C4. For every input sequence and every combination of options, the filtered output of
  \<open>filterTextNodes\<close> is a subsequence of the input; the four removal counts and the number
  of survivors add up to the number of inputs, with no count negative; and a stage that is
  switched off (content exclusion, frame-name exclusion, deduplication) reports zero. The
  length stage always runs.
\<close>

theorem filterTextNodes_counts:
  "subseq (filtered (filterTextNodes lc nodes opts)) nodes \<and>
   byContent (excluded (filterTextNodes lc nodes opts))
     + byFrameName (excluded (filterTextNodes lc nodes opts))
     + byLength (excluded (filterTextNodes lc nodes opts))
     + duplicates (excluded (filterTextNodes lc nodes opts))
     + int (length (filtered (filterTextNodes lc nodes opts))) = int (length nodes) \<and>
   0 \<le> byContent (excluded (filterTextNodes lc nodes opts)) \<and>
   0 \<le> byFrameName (excluded (filterTextNodes lc nodes opts)) \<and>
   0 \<le> byLength (excluded (filterTextNodes lc nodes opts)) \<and>
   0 \<le> duplicates (excluded (filterTextNodes lc nodes opts)) \<and>
   (excludeByContent opts = Some False \<longrightarrow>
      byContent (excluded (filterTextNodes lc nodes opts)) = 0) \<and>
   (excludeByFrameName opts = Some False \<longrightarrow>
      byFrameName (excluded (filterTextNodes lc nodes opts)) = 0) \<and>
   (removeDuplicates opts = Some False \<longrightarrow>
      duplicates (excluded (filterTextNodes lc nodes opts)) = 0)"
proof -
  have tr: "\<And>a b c :: FigmaTextNode list. subseq a b \<Longrightarrow> subseq b c \<Longrightarrow> subseq a c"
    by (rule subseq_order.trans)
  show ?thesis
    unfolding filterTextNodes_def Let_def orDefault_def
    by (auto simp: removeDuplicateTexts_length
             intro!: tr [OF removeDuplicateTexts_subseq] tr [OF subseq_filter_left])
qed

theorem filterTextNodes_counts_witness:
  "excludeByContent \<lparr>minLength = None, excludeByContent = Some False,
       excludeByFrameName = Some False, removeDuplicates = Some False,
       contextAwareDuplicates = None, maxLength = None\<rparr> = Some False
   \<and> excludeByFrameName \<lparr>minLength = None, excludeByContent = Some False,
       excludeByFrameName = Some False, removeDuplicates = Some False,
       contextAwareDuplicates = None, maxLength = None\<rparr> = Some False
   \<and> removeDuplicates \<lparr>minLength = None, excludeByContent = Some False,
       excludeByFrameName = Some False, removeDuplicates = Some False,
       contextAwareDuplicates = None, maxLength = None\<rparr> = Some False
   \<and> byContent (excluded (filterTextNodes id [record1 ''1'', record1 ''1'']
        \<lparr>minLength = None, excludeByContent = Some False,
         excludeByFrameName = Some False, removeDuplicates = Some False,
         contextAwareDuplicates = None, maxLength = None\<rparr>)) = 0
   \<and> byFrameName (excluded (filterTextNodes id [record1 ''1'', record1 ''1'']
        \<lparr>minLength = None, excludeByContent = Some False,
         excludeByFrameName = Some False, removeDuplicates = Some False,
         contextAwareDuplicates = None, maxLength = None\<rparr>)) = 0
   \<and> duplicates (excluded (filterTextNodes id [record1 ''1'', record1 ''1'']
        \<lparr>minLength = None, excludeByContent = Some False,
         excludeByFrameName = Some False, removeDuplicates = Some False,
         contextAwareDuplicates = None, maxLength = None\<rparr>)) = 0"
  using filterTextNodes_counts [of id "[record1 ''1'', record1 ''1'']"
        "\<lparr>minLength = None, excludeByContent = Some False,
          excludeByFrameName = Some False, removeDuplicates = Some False,
          contextAwareDuplicates = None, maxLength = None\<rparr>"]
  by simp

text \<open>What deduplication does to a pair of records, in both modes.\<close>

lemma removeDuplicateTexts_pair:
  "removeDuplicateTexts [a, b] True = (if contextKey a = contextKey b then [a] else [a, b]) \<and>
   removeDuplicateTexts [a, b] False = (if text a = text b then [a] else [a, b])"
  by (simp add: removeDuplicateTexts_def)

text \<open>
  C6. Context-aware deduplication is meant to keep two records with the same text whose
  container paths differ in their last two segments. The key it compares is the last two
  segments joined by \<open>" > "\<close>, so two different pairs of segments that join to the same
  string are taken for one context: the records under \<open>Menu, A > B\<close> and under
  \<open>Menu > A, B\<close> have the same text and different last two segments, and the second one is
  removed.
\<close>

theorem removeDuplicateTexts_separator_collision:
  "removeDuplicateTexts
     [\<lparr>text = str ''OK'', frameName = str ''A > B'',
       framePath = [str ''Menu'', str ''A > B''], nodeId = str ''1:1''\<rparr>,
      \<lparr>text = str ''OK'', frameName = str ''B'',
       framePath = [str ''Menu > A'', str ''B''], nodeId = str ''1:2''\<rparr>] True
   = [\<lparr>text = str ''OK'', frameName = str ''A > B'',
       framePath = [str ''Menu'', str ''A > B''], nodeId = str ''1:1''\<rparr>]
   \<and> slice (-2) 2 [str ''Menu'', str ''A > B''] \<noteq> slice (-2) 2 [str ''Menu > A'', str ''B'']"
  by (simp add: removeDuplicateTexts_def contextKey_def contextPath_def slice_def str_def)


section \<open>The document tree extractor\<close>

text \<open>
  C7. Two sibling instances of a component with the same name and different identifiers
  are meant to give different frame paths. The path entry carries only the first four
  characters of the identifier part after the colon: the instances \<open>1:10001\<close> and \<open>1:10002\<close>
  both become \<open>Option [1000]\<close>, and the records extracted from them have the same path.
\<close>

theorem extractTextNodes_sibling_instances_same_path:
  "map framePath
     (extractTextNodes
        (FigmaNode (str ''0:1'') (str ''Card'') (str ''FRAME'') None
           (Some [FigmaNode (str ''1:10001'') (str ''Option'') (str ''INSTANCE'') None
                    (Some [FigmaNode (str ''1:20001'') (str ''Label'') (str ''TEXT'')
                             (Some (str ''Yes'')) None None]) None,
                  FigmaNode (str ''1:10002'') (str ''Option'') (str ''INSTANCE'') None
                    (Some [FigmaNode (str ''1:20002'') (str ''Label'') (str ''TEXT'')
                             (Some (str ''No'')) None None]) None]) None)
        [] True)
   = [[str ''Card'', str ''Option [1000]''], [str ''Card'', str ''Option [1000]'']]"
  by (simp add: isContainer_def pathEntry_def shortId_def str_def Let_def)

lemma extract_visited:
  "map (\<lambda>r. (nodeId r, text r)) (extractTextNodes n path onlyVisible)
     = map (\<lambda>m. (node_id m, trimmedText m)) (filter hasRawText (visitedNodes onlyVisible n))"
  "map (\<lambda>r. (nodeId r, text r)) (extractChildren ns path onlyVisible)
     = map (\<lambda>m. (node_id m, trimmedText m))
         (filter hasRawText (visitedChildren onlyVisible ns))"
proof (induction n path onlyVisible and ns path onlyVisible
       rule: extractTextNodes_extractChildren.induct)
  case (1 nid nm ty chars kids vis path onlyVisible)
  then show ?case
    by (auto simp: Let_def hasRawText_def trimmedText_def split: option.splits)
next
  case (2 path onlyVisible)
  then show ?case by simp
next
  case (3 child rest path onlyVisible)
  then show ?case by simp
qed

text \<open>
  C8, as stated: no record for a \<open>TEXT\<close> node whose characters are white space only. The
  guard tests the raw characters and the trimming comes after it, so a node holding two
  spaces gives a record with the empty text.
\<close>

theorem extractTextNodes_whitespace_counterexample:
  "extractTextNodes
     (FigmaNode (str ''1:2'') (str ''Label'') (str ''TEXT'') (Some (str ''  '')) None None)
     [] True
   = [\<lparr>text = [], frameName = str ''Root'', framePath = [], nodeId = str ''1:2''\<rparr>]"
  by (simp add: trim_def isWhiteSpace_def frameNameOf_def isContainer_def str_def)

text \<open>
  C8, amended. The records that \<open>extractTextNodes\<close> returns are, in order, one for each
  visited \<open>TEXT\<close> node whose raw characters are present and not empty, and for no other
  node; the text of the record is the trimmed characters of its node (empty when the
  characters are white space only).
\<close>

theorem extractTextNodes_emits_raw_nonempty:
  "map (\<lambda>r. (nodeId r, text r)) (extractTextNodes n path onlyVisible)
     = map (\<lambda>m. (node_id m, trimmedText m)) (filter hasRawText (visitedNodes onlyVisible n))"
  by (rule extract_visited(1))


section \<open>The token estimators\<close>

lemma ceiling_three_halves:
  "\<lceil>of_int (int j) * (3 / 2 :: rat)\<rceil> = int ((3 * j + 1) div 2)"
proof -
  have "of_int (int j) * (3 / 2 :: rat) = of_int (3 * int j) / of_int 2" by simp
  then have "\<lceil>of_int (int j) * (3 / 2 :: rat)\<rceil> = - (- (3 * int j) div 2)"
    by (simp only: ceiling_divide_eq_div)
  also have "\<dots> = int ((3 * j + 1) div 2)" by (simp add: zdiv_int)
  finally show ?thesis .
qed

lemma ceiling_quarter: "\<lceil>of_int (int n) / (4 :: rat)\<rceil> = int ((n + 3) div 4)"
proof -
  have "of_int (int n) / (4 :: rat) = of_int (int n) / of_int 4" by simp
  then have "\<lceil>of_int (int n) / (4 :: rat)\<rceil> = - (- int n div 4)"
    by (simp only: ceiling_divide_eq_div)
  also have "\<dots> = int ((n + 3) div 4)" by (simp add: zdiv_int)
  finally show ?thesis .
qed

lemma ceiling_third: "\<lceil>of_int (int n) / (3 :: rat)\<rceil> = int ((n + 2) div 3)"
proof -
  have "of_int (int n) / (3 :: rat) = of_int (int n) / of_int 3" by simp
  then have "\<lceil>of_int (int n) / (3 :: rat)\<rceil> = - (- int n div 3)"
    by (simp only: ceiling_divide_eq_div)
  also have "\<dots> = int ((n + 2) div 3)" by (simp add: zdiv_int)
  finally show ?thesis .
qed

lemma estimateTokens_flat_div: "estimateTokens_flat s = int ((length s + 2) div 3)"
  unfolding estimateTokens_flat_def by (rule ceiling_third)

text \<open>
  C9, as stated, for the \<open>estimateTokens\<close> of \<open>token-estimator.ts\<close>: on \<open>abcd\<close> it returns
  \<open>ceil(4 / 3) = 2\<close>, where the weighting of the claim gives \<open>ceil(4 / 4) = 1\<close>.
\<close>

theorem estimateTokens_flat_counterexample:
  "estimateTokens_flat (str ''abcd'') = 2 \<and> int (claimedEstimate (str ''abcd'')) = 1"
  by (simp add: estimateTokens_flat_div claimedEstimate_def isJapaneseChar_def str_def)

text \<open>
  C9, amended. The script-aware \<open>estimateTokens\<close> returns, for every string, the ceiling
  of 1.5 times the number of its characters (UTF-16 code units) in the Hiragana, Katakana
  and CJK ranges plus the ceiling of a quarter of the number of its other characters; the
  two numbers add up to the length. The \<open>estimateTokens\<close> of \<open>token-estimator.ts\<close> returns
  the ceiling of a third of the length, whatever the script.
\<close>

theorem estimateTokens_weights:
  "estimateTokens s = int (claimedEstimate s) \<and>
   estimateTokens s
     = \<lceil>of_nat (length (filter isJapaneseChar s)) * (3 / 2 :: rat)\<rceil>
       + \<lceil>of_nat (length (filter (\<lambda>c. \<not> isJapaneseChar c) s)) / (4 :: rat)\<rceil> \<and>
   length (filter isJapaneseChar s) + length (filter (\<lambda>c. \<not> isJapaneseChar c) s) = length s \<and>
   estimateTokens_flat s = int ((length s + 2) div 3)"
proof -
  let ?j = "length (filter isJapaneseChar s)"
  let ?o = "length (filter (\<lambda>c. \<not> isJapaneseChar c) s)"
  have sum: "?j + ?o = length s" by (rule sum_length_filter_compl)
  then have o: "int (length s) - int ?j = int ?o" by linarith
  have e: "estimateTokens s
             = \<lceil>of_int (int ?j) * (3 / 2 :: rat)\<rceil> + \<lceil>of_int (int ?o) / (4 :: rat)\<rceil>"
    by (simp only: estimateTokens_def Let_def o)
  have f: "estimateTokens_flat s = int ((length s + 2) div 3)"
    by (rule estimateTokens_flat_div)
  have c: "estimateTokens s = int (claimedEstimate s)"
    unfolding e ceiling_three_halves ceiling_quarter claimedEstimate_def Let_def by simp
  show ?thesis using e f c sum by simp
qed


section \<open>The batched key generator\<close>

text \<open>For a positive batch size the batching loop ends, and the invocation returns.\<close>

lemma splitBatches_returns_aux:
  "0 < batchSize \<Longrightarrow> \<exists>r. splitBatches i batchSize nodes acc = Some r"
proof (induction "nat (int (length nodes) - i)" arbitrary: i acc rule: less_induct)
  case less
  show ?case
  proof (cases "i < int (length nodes)")
    case True
    have "nat (int (length nodes) - (i + batchSize)) < nat (int (length nodes) - i)"
      using True less.prems by linarith
    from less.hyps [OF this less.prems]
    obtain r where "splitBatches (i + batchSize) batchSize nodes
                      (acc @ [slice i (i + batchSize) nodes]) = Some r" by blast
    then show ?thesis using True by (subst splitBatches.simps) simp
  next
    case False
    then show ?thesis by (subst splitBatches.simps) simp
  qed
qed

lemma splitBatches_returns:
  "0 < batchSize \<Longrightarrow> \<exists>batches. splitBatches 0 batchSize nodes [] = Some batches"
  by (rule splitBatches_returns_aux)

lemma generateKeysInBatches_returns:
  "0 < batchSize \<Longrightarrow>
   \<exists>out. generateKeysInBatches B P parse nodes ctx existingKeys batchSize nested = Some out"
  using splitBatches_returns [of batchSize nodes]
  by (auto simp: generateKeysInBatches_def)

lemma map_of_fold_update:
  "distinct (map fst src) \<Longrightarrow>
   map_of (fold (\<lambda>(k, v). AList.update k v) src target) = map_of target ++ map_of src"
proof (induction src arbitrary: target)
  case Nil
  then show ?case by simp
next
  case (Cons e src)
  obtain k v where e: "e = (k, v)" by (cases e)
  from Cons.prems have d: "distinct (map fst src)" and k: "k \<notin> fst ` set src"
    by (auto simp: e)
  have k': "map_of src k = None" using k by (simp add: map_of_eq_None_iff)
  have "map_of (fold (\<lambda>(k, v). AList.update k v) src (AList.update k v target))
        = map_of (AList.update k v target) ++ map_of src"
    by (rule Cons.IH [OF d])
  also have "\<dots> = map_of target ++ map_of (e # src)"
    using k' by (auto simp: e update_conv' map_add_def fun_eq_iff split: option.splits)
  finally have "map_of (fold (\<lambda>(k, v). AList.update k v) src (AList.update k v target))
        = map_of target ++ map_of (e # src)" .
  moreover have "fold (\<lambda>(k, v). AList.update k v) (e # src) target
        = fold (\<lambda>(k, v). AList.update k v) src (AList.update k v target)"
    by (simp add: e)
  ultimately show ?case by (simp only:)
qed

lemma map_of_spread:
  "distinct (map fst src) \<Longrightarrow> map_of (spread target src) = map_of target ++ map_of src"
  unfolding spread_def by (rule map_of_fold_update)

lemma distinct_fold_update:
  "distinct (map fst target) \<Longrightarrow> distinct (map fst (fold (\<lambda>(k, v). AList.update k v) src target))"
  by (induction src arbitrary: target) (auto simp: distinct_update)

lemma distinct_spread: "distinct (map fst target) \<Longrightarrow> distinct (map fst (spread target src))"
  unfolding spread_def by (rule distinct_fold_update)

lemma map_of_mergeResults_aux:
  "distinct (map fst acc0) \<Longrightarrow> \<forall>r \<in> set rs. distinct (map fst r) \<Longrightarrow>
   map_of (foldl (\<lambda>acc curr. spread (spread [] acc) curr) acc0 rs)
     = foldl (++) (map_of acc0) (map map_of rs)"
proof (induction rs arbitrary: acc0)
  case Nil
  then show ?case by simp
next
  case (Cons r rs)
  have d: "distinct (map fst (spread (spread [] acc0) r))"
    by (simp add: distinct_spread)
  have m: "map_of (spread (spread [] acc0) r) = map_of acc0 ++ map_of r"
    using Cons.prems by (simp add: map_of_spread)
  show ?case using Cons.IH [OF d] Cons.prems(2) by (simp add: m)
qed

lemma map_of_mergeResults:
  "\<forall>r \<in> set rs. distinct (map fst r) \<Longrightarrow>
   map_of (mergeResults rs) = foldl (++) Map.empty (map map_of rs)"
  unfolding mergeResults_def using map_of_mergeResults_aux [of "[]" rs] by simp

lemma mergeResults_example:
  "mergeResults [[(str ''A'', JObject [(str ''x'', JNumber 1)])],
                 [(str ''A'', JObject [(str ''y'', JNumber 2)])]]
     = [(str ''A'', JObject [(str ''y'', JNumber 2)])]"
  by (simp add: mergeResults_def spread_def)








lemma regenerate_sent:
  "fst (regenerate B P parse ctx nested batch parsed dups sent st) = sent
   \<or> (\<exists>rq. fst (regenerate B P parse ctx nested batch parsed dups sent st) = sent @ [rq]
            \<and> temperature rq = 1 / 2)"
  unfolding regenerate_def create_def Let_def mkRequest_def
  by (simp split: option.splits reply.splits prod.splits)

lemma processBatch_sent:
  "\<exists>rest. fst (processBatch B P parse ctx nested batch sent st)
             = sent @ mkRequest (buildPrompt batch ctx nested) (3 / 10) # rest
          \<and> (\<forall>rq \<in> set rest. temperature rq = 1 / 2)"
proof -
  let ?rq = "mkRequest (buildPrompt batch ctx nested) (3 / 10)"
  have r: "\<And>parsed dups st1.
     \<exists>rest. fst (regenerate B P parse ctx nested batch parsed dups (sent @ [?rq]) st1)
               = sent @ ?rq # rest \<and> (\<forall>rq \<in> set rest. temperature rq = 1 / 2)"
  proof -
    fix parsed dups st1
    show "\<exists>rest. fst (regenerate B P parse ctx nested batch parsed dups (sent @ [?rq]) st1)
               = sent @ ?rq # rest \<and> (\<forall>rq \<in> set rest. temperature rq = 1 / 2)"
      using regenerate_sent [of B P parse ctx nested batch parsed dups "sent @ [?rq]" st1]
      by auto
  qed
  show ?thesis
    unfolding processBatch_def create_def Let_def
    using r by (simp split: option.splits reply.splits prod.splits)
qed


text \<open>
  C5. The first request that \<open>processBatch\<close> sends for a batch is the first-pass request
  built by \<open>buildPrompt\<close> from the batch, the style sample and the nesting flag alone. Two
  runs over the same batch that differ in everything else (the collision registry and the
  other locals, the provider, the parser, the requests sent before) send character for
  character the same first-pass prompt.
\<close>

theorem firstPass_prompt_ignores_registry:
  "length sent1 < length (fst (processBatch B P1 parse1 ctx nested batch sent1 st1)) \<and>
   length sent2 < length (fst (processBatch B P2 parse2 ctx nested batch sent2 st2)) \<and>
   fst (processBatch B P1 parse1 ctx nested batch sent1 st1) ! length sent1
     = mkRequest (buildPrompt batch ctx nested) (3 / 10) \<and>
   userContent (fst (processBatch B P1 parse1 ctx nested batch sent1 st1) ! length sent1)
     = userContent (fst (processBatch B P2 parse2 ctx nested batch sent2 st2) ! length sent2)"
proof -
  obtain r1 where 1: "fst (processBatch B P1 parse1 ctx nested batch sent1 st1)
      = sent1 @ mkRequest (buildPrompt batch ctx nested) (3 / 10) # r1"
    using processBatch_sent [of B P1 parse1 ctx nested batch sent1 st1] by blast
  obtain r2 where 2: "fst (processBatch B P2 parse2 ctx nested batch sent2 st2)
      = sent2 @ mkRequest (buildPrompt batch ctx nested) (3 / 10) # r2"
    using processBatch_sent [of B P2 parse2 ctx nested batch sent2 st2] by blast
  show ?thesis by (simp add: 1 2)
qed

text \<open>Over a whole invocation: the first-pass requests of two invocations that both return,
  on the same records, style sample, batch size and nesting flag, are the same, whatever
  the existing-key lists and the providers are.\<close>

lemma processBatch_firstPass_filter:
  "filter (\<lambda>rq. temperature rq = 3 / 10) (fst (processBatch B P parse ctx nested batch sent st))
     = filter (\<lambda>rq. temperature rq = 3 / 10) sent @ [mkRequest (buildPrompt batch ctx nested) (3 / 10)]"
proof -
  obtain rest where r: "fst (processBatch B P parse ctx nested batch sent st)
             = sent @ mkRequest (buildPrompt batch ctx nested) (3 / 10) # rest"
      and t: "\<forall>rq \<in> set rest. temperature rq = 1 / 2"
    using processBatch_sent [of B P parse ctx nested batch sent st] by blast
  have "filter (\<lambda>rq. temperature rq = 3 / 10) rest = []"
    using t by (auto simp: filter_empty_conv)
  then show ?thesis by (simp add: r mkRequest_def)
qed

lemma processBatches_firstPass_filter:
  "\<exists>n \<le> length batches.
     filter (\<lambda>rq. temperature rq = 3 / 10) (fst (processBatches B P parse ctx nested batches sent st))
       = filter (\<lambda>rq. temperature rq = 3 / 10) sent
         @ map (\<lambda>b. mkRequest (buildPrompt b ctx nested) (3 / 10)) (take n batches)
     \<and> (\<forall>st'. snd (processBatches B P parse ctx nested batches sent st) = Inr st' \<longrightarrow> n = length batches)"
proof (induction batches arbitrary: sent st)
  case Nil
  then show ?case by simp
next
  case (Cons b bs)
  obtain s1 x where pb: "processBatch B P parse ctx nested b sent st = (s1, x)"
    by (cases "processBatch B P parse ctx nested b sent st")
  have f1: "filter (\<lambda>rq. temperature rq = 3 / 10) s1
     = filter (\<lambda>rq. temperature rq = 3 / 10) sent @ [mkRequest (buildPrompt b ctx nested) (3 / 10)]"
    using processBatch_firstPass_filter [of B P parse ctx nested b sent st] pb by simp
  show ?case
  proof (cases x)
    case (Inl e)
    have "processBatches B P parse ctx nested (b # bs) sent st = (s1, Inl e)"
      using pb Inl by simp
    then show ?thesis using f1 by (intro exI [of _ 1]) simp
  next
    case (Inr st1)
    have eq: "processBatches B P parse ctx nested (b # bs) sent st
                = processBatches B P parse ctx nested bs s1 st1"
      using pb Inr by simp
    obtain n where n: "n \<le> length bs"
      and fn: "filter (\<lambda>rq. temperature rq = 3 / 10) (fst (processBatches B P parse ctx nested bs s1 st1))
       = filter (\<lambda>rq. temperature rq = 3 / 10) s1
         @ map (\<lambda>b. mkRequest (buildPrompt b ctx nested) (3 / 10)) (take n bs)"
      and full: "\<forall>st'. snd (processBatches B P parse ctx nested bs s1 st1) = Inr st' \<longrightarrow> n = length bs"
      using Cons.IH [of s1 st1] by blast
    show ?thesis
      using n fn full f1 unfolding eq by (intro exI [of _ "Suc n"]) simp
  qed
qed

lemma generateKeysInBatches_firstPass_prompts:
  assumes "generateKeysInBatches B P1 parse1 nodes ctx existingKeys1 batchSize nested = Some (sent1, Inr r1)"
      and "generateKeysInBatches B P2 parse2 nodes ctx existingKeys2 batchSize nested = Some (sent2, Inr r2)"
  shows "filter (\<lambda>rq. temperature rq = 3 / 10) sent1 = filter (\<lambda>rq. temperature rq = 3 / 10) sent2"
proof -
  obtain batches where b: "splitBatches 0 batchSize nodes [] = Some batches"
    using assms(1) by (auto simp: generateKeysInBatches_def split: option.splits)
  obtain st1 where 1: "processBatches B P1 parse1 ctx nested batches [] (initialState existingKeys1) = (sent1, Inr st1)"
    using assms(1) b by (auto simp: generateKeysInBatches_def split: prod.splits sum.splits)
  obtain st2 where 2: "processBatches B P2 parse2 ctx nested batches [] (initialState existingKeys2) = (sent2, Inr st2)"
    using assms(2) b by (auto simp: generateKeysInBatches_def split: prod.splits sum.splits)
  have "filter (\<lambda>rq. temperature rq = 3 / 10) sent1
          = map (\<lambda>b. mkRequest (buildPrompt b ctx nested) (3 / 10)) batches"
    using processBatches_firstPass_filter [of batches B P1 parse1 ctx nested "[]" "initialState existingKeys1"] 1
    by auto
  moreover have "filter (\<lambda>rq. temperature rq = 3 / 10) sent2
          = map (\<lambda>b. mkRequest (buildPrompt b ctx nested) (3 / 10)) batches"
    using processBatches_firstPass_filter [of batches B P2 parse2 ctx nested "[]" "initialState existingKeys2"] 2
    by auto
  ultimately show ?thesis by simp
qed


lemma allExistingKeys_trackUsage [simp]:
  "allExistingKeys (trackUsage u st) = allExistingKeys st"
  by (simp add: trackUsage_def split: option.splits)

lemma results_trackUsage [simp]: "results (trackUsage u st) = results st"
  by (simp add: trackUsage_def split: option.splits)

lemma processBatch_Inr:
  assumes "processBatch B P parse ctx nested batch sent st = (sent', Inr st')"
  shows "\<exists>resp c parsed.
           P (sent @ [mkRequest (buildPrompt batch ctx nested) (3 / 10)]) = Reply resp
         \<and> content resp = Some c \<and> c \<noteq> [] \<and> parse c = Some parsed
         \<and> (findDuplicateKeys parsed (allExistingKeys st) \<noteq> [] \<longrightarrow>
              regenerate B P parse ctx nested batch parsed
                   (findDuplicateKeys parsed (allExistingKeys st))
                   (sent @ [mkRequest (buildPrompt batch ctx nested) (3 / 10)])
                   (trackUsage (usage resp) st) = (sent', Inr st'))
         \<and> (findDuplicateKeys parsed (allExistingKeys st) = [] \<longrightarrow>
              sent' = sent @ [mkRequest (buildPrompt batch ctx nested) (3 / 10)]
               \<and> st' = addKeys (extractAllKeys parsed [])
                         ((trackUsage (usage resp) st)
                            \<lparr>results := results (trackUsage (usage resp) st) @ [parsed]\<rparr>))"
  using assms unfolding processBatch_def create_def Let_def
  by (auto split: option.splits reply.splits prod.splits if_splits)










lemma regenerate_results:
  assumes "regenerate B P parse ctx nested batch parsed dups sent st = (sent', Inr st')"
  shows "results st' = results st
       \<or> (\<exists>f r. results st' = results st @ [spread (spread [] f) r])"
  using assms unfolding regenerate_def create_def Let_def
  by (auto simp: addKeys_def split: option.splits reply.splits prod.splits if_splits) blast

lemma processBatch_results_distinct:
  assumes run: "processBatch B P parse ctx nested batch sent st = (sent', Inr st')"
      and wf: "\<forall>c obj. parse c = Some obj \<longrightarrow> distinct (map fst obj)"
      and d: "\<forall>r \<in> set (results st). distinct (map fst r)"
  shows "\<forall>r \<in> set (results st'). distinct (map fst r)"
  using processBatch_Inr [OF run]
proof (elim exE conjE)
  fix resp c parsed
  let ?rq = "mkRequest (buildPrompt batch ctx nested) (3 / 10)"
  assume p: "parse c = Some parsed"
    and br1: "findDuplicateKeys parsed (allExistingKeys st) \<noteq> [] \<longrightarrow>
          regenerate B P parse ctx nested batch parsed
                (findDuplicateKeys parsed (allExistingKeys st)) (sent @ [?rq])
                (trackUsage (usage resp) st) = (sent', Inr st')"
    and br2: "findDuplicateKeys parsed (allExistingKeys st) = [] \<longrightarrow>
          sent' = sent @ [?rq]
            \<and> st' = addKeys (extractAllKeys parsed [])
                      ((trackUsage (usage resp) st)
                         \<lparr>results := results (trackUsage (usage resp) st) @ [parsed]\<rparr>)"
  have dp: "distinct (map fst parsed)" using wf p by blast
  show ?thesis
  proof (cases "findDuplicateKeys parsed (allExistingKeys st) = []")
    case True
    with br2 have "results st' = results st @ [parsed]" by (simp add: addKeys_def)
    then show ?thesis using d dp by auto
  next
    case False
    with br1 have "regenerate B P parse ctx nested batch parsed
                (findDuplicateKeys parsed (allExistingKeys st)) (sent @ [?rq])
                (trackUsage (usage resp) st) = (sent', Inr st')" by simp
    from regenerate_results [OF this]
    show ?thesis using d by (auto simp: distinct_spread)
  qed
qed

lemma processBatches_results_distinct:
  assumes "processBatches B P parse ctx nested batches sent st = (sent', Inr st')"
      and "\<forall>c obj. parse c = Some obj \<longrightarrow> distinct (map fst obj)"
      and "\<forall>r \<in> set (results st). distinct (map fst r)"
  shows "\<forall>r \<in> set (results st'). distinct (map fst r)"
  using assms
proof (induction batches arbitrary: sent st)
  case Nil
  then show ?case by simp
next
  case (Cons b bs)
  obtain s1 x where pb: "processBatch B P parse ctx nested b sent st = (s1, x)"
    by (cases "processBatch B P parse ctx nested b sent st")
  show ?case
  proof (cases x)
    case (Inl e)
    then show ?thesis using Cons.prems(1) pb by simp
  next
    case (Inr st1)
    have rest: "processBatches B P parse ctx nested bs s1 st1 = (sent', Inr st')"
      using Cons.prems(1) pb Inr by simp
    have d1: "\<forall>r \<in> set (results st1). distinct (map fst r)"
      by (rule processBatch_results_distinct [OF pb [unfolded Inr] Cons.prems(2) Cons.prems(3)])
    show ?thesis by (rule Cons.IH [OF rest Cons.prems(2) d1])
  qed
qed

text \<open>
  C3. When the invocation returns, its \<open>generatedKeys\<close> is \<open>mergeResults\<close> of the list of
  outputs of the batches; as a mapping it is the right-biased union of the outputs taken in
  order, so a top-level key of a later output replaces that of an earlier one with its
  whole value: the outputs \<open>{A: {x: 1}}\<close>, \<open>{A: {y: 2}}\<close> merge to \<open>{A: {y: 2}}\<close>. The
  parser is taken to return objects whose keys are unique, as \<open>JSON.parse\<close> does.
\<close>

theorem generateKeysInBatches_shallow_merge:
  assumes batches: "splitBatches 0 batchSize nodes [] = Some batches"
      and run: "processBatches B P parse ctx nested batches [] (initialState existingKeys)
                  = (sent, Inr st)"
      and wf: "\<forall>c obj. parse c = Some obj \<longrightarrow> distinct (map fst obj)"
  shows "generateKeysInBatches B P parse nodes ctx existingKeys batchSize nested
           = Some (sent, Inr \<lparr>generatedKeys = mergeResults (results st), tokenUsage = tokens st\<rparr>)
       \<and> map_of (mergeResults (results st)) = foldl (++) Map.empty (map map_of (results st))
       \<and> mergeResults [[(str ''A'', JObject [(str ''x'', JNumber 1)])],
                        [(str ''A'', JObject [(str ''y'', JNumber 2)])]]
           = [(str ''A'', JObject [(str ''y'', JNumber 2)])]"
proof -
  have d: "\<forall>r \<in> set (results st). distinct (map fst r)"
    by (rule processBatches_results_distinct [OF run wf]) (simp add: initialState_def)
  have "generateKeysInBatches B P parse nodes ctx existingKeys batchSize nested
           = Some (sent, Inr \<lparr>generatedKeys = mergeResults (results st), tokenUsage = tokens st\<rparr>)"
    by (simp add: generateKeysInBatches_def batches run)
  then show ?thesis
    using map_of_mergeResults [OF d] mergeResults_example by simp
qed

theorem generateKeysInBatches_shallow_merge_witness:
  "\<forall>B. splitBatches 0 1 [record1 ''a'', record1 ''b''] [] = Some [[record1 ''a''], [record1 ''b'']]
   \<and> processBatches B (scripted [answer ''1'', answer ''2''])
        (map_of [(str ''1'', [(str ''A'', JObject [(str ''x'', JNumber 1)])]),
                 (str ''2'', [(str ''A'', JObject [(str ''y'', JNumber 2)])])])
        [] True [[record1 ''a''], [record1 ''b'']] [] (initialState [])
      = ([mkRequest (buildPrompt [record1 ''a''] [] True) (3 / 10),
          mkRequest (buildPrompt [record1 ''b''] [] True) (3 / 10)],
         Inr \<lparr>results = [[(str ''A'', JObject [(str ''x'', JNumber 1)])],
                          [(str ''A'', JObject [(str ''y'', JNumber 2)])]],
              tokens = \<lparr>promptTokens = 0, completionTokens = 0, totalTokens = 0\<rparr>,
              allExistingKeys = [str ''A.x'', str ''A.y'']\<rparr>)
   \<and> distinct (map fst [(str ''A'', JObject [(str ''x'', JNumber 1)])])
   \<and> distinct (map fst [(str ''A'', JObject [(str ''y'', JNumber 2)])])
   \<and> generateKeysInBatches B (scripted [answer ''1'', answer ''2''])
        (map_of [(str ''1'', [(str ''A'', JObject [(str ''x'', JNumber 1)])]),
                 (str ''2'', [(str ''A'', JObject [(str ''y'', JNumber 2)])])])
        [record1 ''a'', record1 ''b''] [] [] 1 True
      = Some ([mkRequest (buildPrompt [record1 ''a''] [] True) (3 / 10),
               mkRequest (buildPrompt [record1 ''b''] [] True) (3 / 10)],
              Inr \<lparr>generatedKeys = [(str ''A'', JObject [(str ''y'', JNumber 2)])],
                   tokenUsage = \<lparr>promptTokens = 0, completionTokens = 0, totalTokens = 0\<rparr>\<rparr>)"
  (is "\<forall>B. ?W B")
proof (rule allI)
  fix B :: builtins
  have h1: "splitBatches 0 1 [record1 ''a'', record1 ''b''] []
              = Some [[record1 ''a''], [record1 ''b'']]"
    by (simp add: splitBatches.simps slice_def)
  have h2: "processBatches B (scripted [answer ''1'', answer ''2''])
        (map_of [(str ''1'', [(str ''A'', JObject [(str ''x'', JNumber 1)])]),
                 (str ''2'', [(str ''A'', JObject [(str ''y'', JNumber 2)])])])
        [] True [[record1 ''a''], [record1 ''b'']] [] (initialState [])
      = ([mkRequest (buildPrompt [record1 ''a''] [] True) (3 / 10),
          mkRequest (buildPrompt [record1 ''b''] [] True) (3 / 10)],
         Inr \<lparr>results = [[(str ''A'', JObject [(str ''x'', JNumber 1)])],
                          [(str ''A'', JObject [(str ''y'', JNumber 2)])]],
              tokens = \<lparr>promptTokens = 0, completionTokens = 0, totalTokens = 0\<rparr>,
              allExistingKeys = [str ''A.x'', str ''A.y'']\<rparr>)"
    by (simp add: run_defs)
  have h3: "\<forall>c obj. map_of [(str ''1'', [(str ''A'', JObject [(str ''x'', JNumber 1)])]),
                       (str ''2'', [(str ''A'', JObject [(str ''y'', JNumber 2)])])] c = Some obj
          \<longrightarrow> distinct (map fst obj)"
    by (auto split: if_splits)
  from generateKeysInBatches_shallow_merge [OF h1 h2 h3]
  have "generateKeysInBatches B (scripted [answer ''1'', answer ''2''])
        (map_of [(str ''1'', [(str ''A'', JObject [(str ''x'', JNumber 1)])]),
                 (str ''2'', [(str ''A'', JObject [(str ''y'', JNumber 2)])])])
        [record1 ''a'', record1 ''b''] [] [] 1 True
      = Some ([mkRequest (buildPrompt [record1 ''a''] [] True) (3 / 10),
               mkRequest (buildPrompt [record1 ''b''] [] True) (3 / 10)],
              Inr \<lparr>generatedKeys = [(str ''A'', JObject [(str ''y'', JNumber 2)])],
                   tokenUsage = \<lparr>promptTokens = 0, completionTokens = 0, totalTokens = 0\<rparr>\<rparr>)"
    by (simp del: map_of.simps)
  moreover have "distinct (map fst [(str ''A'', JObject [(str ''x'', JNumber 1)])])"
    and "distinct (map fst [(str ''A'', JObject [(str ''y'', JNumber 2)])])"
    by simp_all
  ultimately show "?W B" using h1 h2 by (intro conjI)
qed























lemma findDuplicateKeys_are_keys:
  "set (findDuplicateKeys parsed existingKeys) \<subseteq> set (extractAllKeys parsed [])"
  by (auto simp: findDuplicateKeys_def)


text \<open>
  A retained key with a dot in a member name and nothing to walk into ends the batch
  instead: with a first response \<open>{k: t, x.y: v}\<close> and no built-in member \<open>x\<close> of an
  object, the walk reads a member of \<open>undefined\<close>, and the \<open>TypeError\<close> is reported as
  \<open>InvalidJSON\<close>.
\<close>

lemma regenerate_dotted_name_aborts:
  assumes "B (JObject [(str ''k'', JString (str ''t'')), (str ''x.y'', JString (str ''v''))])
             (str ''x'') = Some JUndefined"
  shows "snd (regenerate B (scripted [answer ''2''])
          (map_of [(str ''2'', [(str ''z'', JString (str ''t''))])]) [] False [record1 ''t'']
          [(str ''k'', JString (str ''t'')), (str ''x.y'', JString (str ''v''))]
          [str ''k''] [] (initialState [str ''k'']))
   = Inl InvalidJSON"
  using assms by (simp add: run_defs)




text \<open>A missing or empty content of the first-pass reply ends the batch in \<open>NoResponse\<close>.\<close>

lemma processBatch_first_empty_fatal:
  assumes "P (sent @ [mkRequest (buildPrompt batch ctx nested) (3 / 10)]) = Reply resp"
      and "content resp = None \<or> content resp = Some []"
  shows "snd (processBatch B P parse ctx nested batch sent st) = Inl NoResponse"
  using assms unfolding processBatch_def create_def Let_def by auto

text \<open>
  C2. A missing or empty content is meant to abort the invocation on the regeneration call
  as on the first call. With \<open>k\<close> in the existing-key list, a first response \<open>{k: t}\<close> and
  a retry reply without content, the invocation returns normally, with an empty map: the
  batch is dropped and no error is raised.
\<close>

theorem generateKeysInBatches_empty_retry_not_fatal:
  "\<forall>B.
   map_option snd
       (generateKeysInBatches B
          (scripted [answer ''1'', Reply \<lparr>content = None, usage = None\<rparr>])
          (map_of [(str ''1'', [(str ''k'', JString (str ''t''))])])
          [record1 ''t''] [] [str ''k''] 10 False)
     = Some (Inr \<lparr>generatedKeys = [],
                  tokenUsage = \<lparr>promptTokens = 0, completionTokens = 0, totalTokens = 0\<rparr>\<rparr>)"
  by (simp add: run_defs)

end
